theory Spec2Isabelle
  imports Complex_Main
begin

section \<open>JavaScript values\<close>

text \<open>
  The components are TypeScript, whose types are erased when the code runs: the body of
  a response is whatever \<^verbatim>\<open>response.json()\<close> parsed, and a message's
  \<^verbatim>\<open>content\<close> holds whatever value was stored there. Values are therefore
  modelled as parsed JSON (plus \<^verbatim>\<open>undefined\<close>, the result of reading an absent
  property). An object is the list of its own properties, each key once. Numbers are
  reals: only their comparisons and their truthiness are used, and on the finite doubles
  both agree with the reals. A \<open>char\<close> stands for one code unit below 256.
\<close>

datatype js_error = Error string | TypeError string | SyntaxError string

datatype jsval =
    JUndefined
  | JNull
  | JBool bool
  | JNum real
  | JStr string
  | JArr "jsval list"
  | JObj "(string \<times> jsval) list"

text \<open>What \<^verbatim>\<open>if (v)\<close>, \<^verbatim>\<open>v && w\<close> and \<^verbatim>\<open>v || w\<close> test.\<close>

fun truthy :: "jsval \<Rightarrow> bool" where
  "truthy JUndefined = False"
| "truthy JNull = False"
| "truthy (JBool b) = b"
| "truthy (JNum x) = (x \<noteq> 0)"
| "truthy (JStr s) = (s \<noteq> [])"
| "truthy (JArr xs) = True"
| "truthy (JObj kvs) = True"

text \<open>
  The property read \<^verbatim>\<open>v.k\<close>, for a name \<open>k\<close> that no prototype defines
  (\<^verbatim>\<open>result\<close> and \<^verbatim>\<open>response\<close> are the only names read): it throws on
  \<^verbatim>\<open>undefined\<close> and \<^verbatim>\<open>null\<close>, looks an object's own property up, and is
  \<^verbatim>\<open>undefined\<close> on every other value.
\<close>

fun get_prop :: "jsval \<Rightarrow> string \<Rightarrow> js_error + jsval" where
  "get_prop JUndefined k = Inl (TypeError (''Cannot read properties of undefined (reading '' @ k @ '')''))"
| "get_prop JNull k = Inl (TypeError (''Cannot read properties of null (reading '' @ k @ '')''))"
| "get_prop (JObj kvs) k = Inr (case map_of kvs k of None \<Rightarrow> JUndefined | Some v \<Rightarrow> v)"
| "get_prop v k = Inr JUndefined"

text \<open>\<^verbatim>\<open>String.prototype.trim\<close>: white space and line terminators below 256.\<close>

definition is_white_space :: "char \<Rightarrow> bool" where
  "is_white_space c =
     (c \<in> set [CHR 0x09, CHR 0x0A, CHR 0x0B, CHR 0x0C, CHR 0x0D, CHR 0x20, CHR 0xA0])"

definition trim :: "string \<Rightarrow> string" where
  "trim s = rev (dropWhile is_white_space (rev (dropWhile is_white_space s)))"

text \<open>The decimal digits of a number, as a template literal prints \<^verbatim>\<open>Date.now()\<close>
  and \<^verbatim>\<open>response.status\<close>. \<open>digit_char\<close> is only applied to numbers below 10.\<close>

definition digit_char :: "nat \<Rightarrow> char" where
  "digit_char d = ''0123456789'' ! d"

function decimal :: "nat \<Rightarrow> string" where
  "decimal n = (if n < 10 then [digit_char n] else decimal (n div 10) @ [digit_char (n mod 10)])"
  by pat_completeness auto
termination
  by (relation "measure (\<lambda>n. n)") auto

declare decimal.simps [simp del]

text \<open>\<^verbatim>\<open>Array.prototype.reduce\<close> without an initial value: the first element
  starts the accumulator, and an empty array throws.\<close>

fun reduce :: "('a \<Rightarrow> 'a \<Rightarrow> 'a) \<Rightarrow> 'a list \<Rightarrow> js_error + 'a" where
  "reduce f [] = Inl (TypeError ''Reduce of empty array with no initial value'')"
| "reduce f (x # xs) = Inr (foldl f x xs)"

section \<open>Data model\<close>

datatype role = System | User | Assistant

text \<open>\<^verbatim>\<open>interface Message\<close> of the chat component.\<close>

record message =
  role :: role
  content :: jsval
  id_msg :: string

text \<open>The \<^verbatim>\<open>{ role, content }\<close> objects of a request body.\<close>

type_synonym wire_message = "role \<times> jsval"

record request =
  url :: string
  http_method :: string
  headers :: "(string \<times> string) list"
  body_messages :: "wire_message list"

text \<open>\<^verbatim>\<open>import.meta.env\<close>, declared in \<^verbatim>\<open>env.d.ts\<close>.\<close>

record config =
  VITE_CF_ACCOUNT_ID :: string
  VITE_CF_API_KEY :: string

text \<open>
  What a \<^verbatim>\<open>fetch\<close> call comes to: the promise rejects, or it resolves to a response
  with a status and a body that \<^verbatim>\<open>response.json()\<close> parses or rejects.
\<close>

datatype fetch_outcome =
    Rejected js_error
  | Responded nat "js_error + jsval"

text \<open>
  \<^verbatim>\<open>Object.entries(detection.expressions)\<close>: the labels with their scores, in
  enumeration order.
\<close>

type_synonym expressions = "(string \<times> real) list"

text \<open>
  What the analysis of one video frame comes to inside \<^verbatim>\<open>detectFaces\<close>: the detector
  throws, the canvas has no 2d context, or there is a list of detections (each given by
  its expressions).
\<close>

datatype frame =
    DetectionThrows js_error
  | NoContext
  | Detections "expressions list"

text \<open>The speech recogniser's methods, and the callbacks handed to \<^verbatim>\<open>setTimeout\<close>.
  A callback that reads \<^verbatim>\<open>isListening\<close> reads the constant of the render that
  created the enclosing handler; that value travels with the task.\<close>

datatype recognizer_call = Start | Stop

datatype timer_task =
    StartAfterPermission
  | RetryAfterNetworkError bool
  | RestartAfterRetryStop
  | RestartAfterEnd bool

text \<open>
  The recogniser object held in \<^verbatim>\<open>recognitionRef\<close>, reduced to the values its handlers
  closed over: \<^verbatim>\<open>onerror\<close> is assigned once, by the effect that runs on mount, and
  \<^verbatim>\<open>onend\<close> is assigned again by the effect that depends on
  \<^verbatim>\<open>[isListening, networkError]\<close>.
\<close>

record recognition =
  onerror_isListening :: bool
  onend_isListening :: bool
  onend_networkError :: bool

text \<open>
  The state of the three components (\<^verbatim>\<open>App\<close>, \<^verbatim>\<open>FaceDetection\<close>,
  \<^verbatim>\<open>ChatInterface\<close>) as far as the handlers below read or write it, followed by the
  environment they act on: the pending timers (identifier, delay in ms, callback), the
  calls made on the recogniser and the requests handed to \<^verbatim>\<open>fetch\<close>.
\<close>

record app_state =
  currentEmotion :: "string option"
  detectedEmotion :: "string option"
  messages :: "message list"
  input :: string
  isLoading :: bool
  isListening :: bool
  speechSupported :: bool
  permissionError :: "string option"
  networkError :: bool
  recognitionRef :: "recognition option"
  retryTimeoutRef :: "nat option"
  timers :: "(nat \<times> nat \<times> timer_task) list"
  next_timer_id :: nat
  recognizer_calls :: "recognizer_call list"
  fetch_calls :: "request list"

text \<open>The initial values of the \<^verbatim>\<open>useState\<close> and \<^verbatim>\<open>useRef\<close> hooks. Timer
  identifiers are positive integers.\<close>

definition initial_state :: app_state where
  "initial_state =
     \<lparr> currentEmotion = None, detectedEmotion = None, messages = [], input = [],
       isLoading = False, isListening = False, speechSupported = False,
       permissionError = None, networkError = False, recognitionRef = None,
       retryTimeoutRef = None, timers = [], next_timer_id = 1,
       recognizer_calls = [], fetch_calls = [] \<rparr>"

section \<open>Emotion aggregator (FaceDetection.tsx, App.tsx)\<close>

definition dominantExpression :: "expressions \<Rightarrow> js_error + (string \<times> real)" where
  "dominantExpression entries =
     reduce (\<lambda>prev current. if snd prev > snd current then prev else current) entries"

text \<open>
  \<^verbatim>\<open>detectFaces\<close>, as far as it writes state. \<open>ready\<close> is the guard at its head (both
  refs set and the stream active). Every exception of the \<^verbatim>\<open>try\<close> block is caught
  and logged, which leaves the state as it was.
\<close>

definition detectFaces :: "bool \<Rightarrow> frame \<Rightarrow> app_state \<Rightarrow> app_state" where
  "detectFaces ready fr st =
     (if \<not> ready then st
      else case fr of
          DetectionThrows e \<Rightarrow> st
        | NoContext \<Rightarrow> st
        | Detections resizedDetections \<Rightarrow>
            (case resizedDetections of
                [] \<Rightarrow> st
              | detection # _ \<Rightarrow>
                  (case dominantExpression detection of
                      Inl e \<Rightarrow> st
                    | Inr dominant \<Rightarrow>
                        if snd dominant > 0.5
                        then st\<lparr>detectedEmotion := Some (fst dominant)\<rparr>
                        else st)))"

definition handleEmotionDetected :: "string \<Rightarrow> app_state \<Rightarrow> app_state" where
  "handleEmotionDetected emotion st = st\<lparr>currentEmotion := Some emotion\<rparr>"

text \<open>
  The effect of \<^verbatim>\<open>FaceDetection\<close> with dependencies
  \<^verbatim>\<open>[detectedEmotion, onEmotionDetected]\<close>: it runs after a render in which
  \<^verbatim>\<open>detectedEmotion\<close> differs from the previous render (the callback is stable), and
  notifies the parent when the value is truthy. \<open>prev\<close> is the state of the previous
  render.
\<close>

definition emotion_effect :: "app_state \<Rightarrow> app_state \<Rightarrow> app_state" where
  "emotion_effect prev st =
     (if detectedEmotion st \<noteq> detectedEmotion prev
      then (case detectedEmotion st of
               None \<Rightarrow> st
             | Some e \<Rightarrow> if e \<noteq> [] then handleEmotionDetected e st else st)
      else st)"

section \<open>Chat dispatcher (ChatInterface)\<close>

definition clearChat :: "app_state \<Rightarrow> app_state" where
  "clearChat st = st\<lparr>messages := []\<rparr>"

text \<open>\<^verbatim>\<open>currentEmotion || 'neutral'\<close> on a \<^verbatim>\<open>string | null\<close>.\<close>

definition emotion_or_neutral :: "string option \<Rightarrow> string" where
  "emotion_or_neutral e =
     (case e of None \<Rightarrow> ''neutral'' | Some s \<Rightarrow> if s \<noteq> [] then s else ''neutral'')"

definition system_prompt :: "string option \<Rightarrow> string" where
  "system_prompt e =
     ''You are an emotion powered chatbot. Your responses are influenced by the user emotions. Currently the user is ''
       @ emotion_or_neutral e @ ''!''"

definition api_url :: "config \<Rightarrow> string" where
  "api_url cfg =
     ''/api/cloudflare/client/v4/accounts/'' @ VITE_CF_ACCOUNT_ID cfg
       @ ''/ai/run/@cf/meta/llama-2-7b-chat-fp16''"

definition wire :: "message \<Rightarrow> wire_message" where
  "wire msg = (role msg, content msg)"

definition fallback_text :: string where
  "fallback_text = ''Sorry, I had trouble processing your request. Please try again.''"

text \<open>
  \<^verbatim>\<open>sendMessage\<close> up to its \<^verbatim>\<open>await fetch(...)\<close>. \<open>t_user\<close> and \<open>t_system\<close> are
  the two readings of \<^verbatim>\<open>Date.now()\<close>. The handler is the one of the latest render,
  so the constants it closes over (\<^verbatim>\<open>input\<close>, \<^verbatim>\<open>messages\<close>,
  \<^verbatim>\<open>currentEmotion\<close>, \<^verbatim>\<open>isListening\<close>) are the fields of \<open>st\<close>. An exception of
  \<^verbatim>\<open>recognitionRef.current.stop()\<close> is caught and ignored.
\<close>

definition sendMessage :: "config \<Rightarrow> nat \<Rightarrow> nat \<Rightarrow> app_state \<Rightarrow> app_state" where
  "sendMessage cfg t_user t_system st =
     (if trim (input st) = [] then st
      else
        let st1 = (if isListening st \<and> recognitionRef st \<noteq> None
                   then st\<lparr>recognizer_calls := recognizer_calls st @ [Stop],
                           isListening := False\<rparr>
                   else st);
            userMessage = \<lparr>role = User, content = JStr (input st),
                           id_msg = ''user-'' @ decimal t_user\<rparr>;
            st2 = st1\<lparr>messages := messages st1 @ [userMessage], input := [],
                      isLoading := True\<rparr>;
            systemMessage = \<lparr>role = System,
                             content = JStr (system_prompt (currentEmotion st)),
                             id_msg = ''system-'' @ decimal t_system\<rparr>;
            conversationHistory = filter (\<lambda>msg. role msg \<noteq> System) (messages st);
            req = \<lparr>url = api_url cfg, http_method = ''POST'',
                   headers = [(''Content-Type'', ''application/json''),
                              (''Authorization'', ''Bearer '' @ VITE_CF_API_KEY cfg)],
                   body_messages =
                     [wire systemMessage] @ map wire conversationHistory
                       @ [wire userMessage]\<rparr>
        in st2\<lparr>fetch_calls := fetch_calls st2 @ [req]\<rparr>)"

text \<open>\<^verbatim>\<open>response.ok\<close>.\<close>

definition response_ok :: "nat \<Rightarrow> bool" where
  "response_ok status = (200 \<le> status \<and> status \<le> 299)"

text \<open>
  The rest of \<^verbatim>\<open>sendMessage\<close>, run when the promise of \<^verbatim>\<open>fetch\<close> settles, on the
  state of that moment (the updates are functional, \<^verbatim>\<open>prev => [...prev, m]\<close>).
  \<open>try_block\<close> is the remainder of the \<^verbatim>\<open>try\<close> block, \<open>catch_block\<close> the handler,
  and the \<^verbatim>\<open>finally\<close> clause is the last update of \<open>sendMessage_settled\<close>.
\<close>

definition try_block :: "fetch_outcome \<Rightarrow> nat \<Rightarrow> app_state \<Rightarrow> js_error + app_state" where
  "try_block outcome now st =
     (case outcome of
         Rejected e \<Rightarrow> Inl e
       | Responded status body \<Rightarrow>
           if \<not> response_ok status
           then Inl (Error (''API responded with status '' @ decimal status))
           else (case body of
                    Inl e \<Rightarrow> Inl e
                  | Inr data \<Rightarrow>
                      (case get_prop data ''result'' of
                          Inl e \<Rightarrow> Inl e
                        | Inr result \<Rightarrow>
                            if \<not> truthy result
                            then Inl (Error ''Unexpected response format from API'')
                            else (case get_prop result ''response'' of
                                     Inl e \<Rightarrow> Inl e
                                   | Inr response \<Rightarrow>
                                       if truthy response
                                       then Inr (st\<lparr>messages := messages st @
                                              [\<lparr>role = Assistant, content = response,
                                                id_msg = ''assistant-'' @ decimal now\<rparr>]\<rparr>)
                                       else Inl (Error ''Unexpected response format from API'')))))"

definition catch_block :: "js_error \<Rightarrow> nat \<Rightarrow> app_state \<Rightarrow> app_state" where
  "catch_block error now st =
     st\<lparr>messages := messages st @
          [\<lparr>role = Assistant, content = JStr fallback_text,
            id_msg = ''error-'' @ decimal now\<rparr>]\<rparr>"

definition sendMessage_settled :: "fetch_outcome \<Rightarrow> nat \<Rightarrow> app_state \<Rightarrow> app_state" where
  "sendMessage_settled outcome now st =
     (let st1 = (case try_block outcome now st of
                    Inr st' \<Rightarrow> st'
                  | Inl error \<Rightarrow> catch_block error now st)
      in st1\<lparr>isLoading := False\<rparr>)"

section \<open>Dictation controller (ChatInterface)\<close>

definition setTimeout :: "timer_task \<Rightarrow> nat \<Rightarrow> app_state \<Rightarrow> nat \<times> app_state" where
  "setTimeout task delay st =
     (next_timer_id st,
      st\<lparr>timers := timers st @ [(next_timer_id st, delay, task)],
         next_timer_id := Suc (next_timer_id st)\<rparr>)"

definition clearTimeout :: "nat \<Rightarrow> app_state \<Rightarrow> app_state" where
  "clearTimeout tid st = st\<lparr>timers := filter (\<lambda>t. fst t \<noteq> tid) (timers st)\<rparr>"

definition call_recognizer :: "recognizer_call \<Rightarrow> app_state \<Rightarrow> app_state" where
  "call_recognizer c st = st\<lparr>recognizer_calls := recognizer_calls st @ [c]\<rparr>"

text \<open>
  \<^verbatim>\<open>initSpeechRecognition\<close>, the body of the effect with no dependencies: it runs once,
  after the first render, and the handlers it creates close over the constants of that
  render. \<open>supported\<close> tells whether the browser has a \<^verbatim>\<open>SpeechRecognition\<close>
  constructor.
\<close>

definition initSpeechRecognition :: "bool \<Rightarrow> app_state \<Rightarrow> app_state" where
  "initSpeechRecognition supported st =
     (if \<not> supported then st\<lparr>speechSupported := False\<rparr>
      else st\<lparr>speechSupported := True,
              recognitionRef := Some \<lparr>onerror_isListening = isListening st,
                                      onend_isListening = isListening st,
                                      onend_networkError = networkError st\<rparr>\<rparr>)"

text \<open>The body of the effect with dependencies \<^verbatim>\<open>[isListening, networkError]\<close>:
  a new \<^verbatim>\<open>onend\<close> closing over the constants of the current render.\<close>

definition assign_onend :: "app_state \<Rightarrow> app_state" where
  "assign_onend st =
     (case recognitionRef st of
         None \<Rightarrow> st
       | Some r \<Rightarrow>
           st\<lparr>recognitionRef :=
                Some (r\<lparr>onend_isListening := isListening st,
                        onend_networkError := networkError st\<rparr>)\<rparr>)"

definition onend_effect :: "app_state \<Rightarrow> app_state \<Rightarrow> app_state" where
  "onend_effect prev st =
     (if isListening st \<noteq> isListening prev \<or> networkError st \<noteq> networkError prev
      then assign_onend st else st)"

text \<open>\<^verbatim>\<open>recognition.onresult\<close>, given \<^verbatim>\<open>event.results[0][0].transcript\<close>.\<close>

definition onresult :: "string \<Rightarrow> app_state \<Rightarrow> app_state" where
  "onresult transcript st =
     st\<lparr>input := (if input st \<noteq> [] then input st @ '' '' @ trim transcript
                  else trim transcript),
        networkError := False\<rparr>"

text \<open>
  \<^verbatim>\<open>recognition.onerror\<close>, given \<^verbatim>\<open>event.error\<close>. \<open>isListening_c\<close> is the
  \<^verbatim>\<open>isListening\<close> the handler closed over; the handler itself does not read it, the
  callback it schedules does.
\<close>

definition onerror :: "bool \<Rightarrow> string \<Rightarrow> app_state \<Rightarrow> app_state" where
  "onerror isListening_c error st =
     (let st1 =
        (if error = ''not-allowed''
         then st\<lparr>permissionError :=
                   Some ''Microphone access was denied. Please check your browser permissions.''\<rparr>
         else if error = ''no-speech'' then st
         else if error = ''network''
         then
           let st2 = st\<lparr>networkError := True,
                        permissionError :=
                          Some ''Network error occurred. Please check your internet connection.''\<rparr>;
               st3 = (case retryTimeoutRef st2 of
                         None \<Rightarrow> st2
                       | Some tid \<Rightarrow> if tid \<noteq> 0 then clearTimeout tid st2 else st2);
               (tid, st4) = setTimeout (RetryAfterNetworkError isListening_c) 2000 st3
           in st4\<lparr>retryTimeoutRef := Some tid\<rparr>
         else st)
      in if error \<noteq> ''network'' then st1\<lparr>isListening := False\<rparr> else st1)"

text \<open>
  \<^verbatim>\<open>recognition.onend\<close>, with the two constants it closed over. \<^verbatim>\<open>setTimeout\<close>
  does not throw, so the \<^verbatim>\<open>catch\<close> clause is never entered.
\<close>

definition onend :: "bool \<Rightarrow> bool \<Rightarrow> app_state \<Rightarrow> app_state" where
  "onend isListening_c networkError_c st =
     (if isListening_c \<and> \<not> networkError_c
      then snd (setTimeout (RestartAfterEnd isListening_c) 300 st)
      else st\<lparr>isListening := False\<rparr>)"

text \<open>
  The timer callbacks. \<open>throws\<close> tells whether the call the callback makes on the
  recogniser throws: inside the \<^verbatim>\<open>try\<close> of the retry the \<^verbatim>\<open>catch\<close> clause runs,
  elsewhere the exception ends the callback.
\<close>

fun run_timer_task :: "timer_task \<Rightarrow> bool \<Rightarrow> app_state \<Rightarrow> app_state" where
  "run_timer_task StartAfterPermission throws st =
     (let st1 = call_recognizer Start st
      in if throws then st1 else st1\<lparr>isListening := True\<rparr>)"
| "run_timer_task (RetryAfterNetworkError isListening_c) throws st =
     (if isListening_c
      then (let st1 = call_recognizer Stop st
            in if throws then st1\<lparr>isListening := False\<rparr>
               else snd (setTimeout RestartAfterRetryStop 300 st1))
      else st)"
| "run_timer_task RestartAfterRetryStop throws st =
     (let st1 = call_recognizer Start st
      in if throws then st1 else st1\<lparr>networkError := False, permissionError := None\<rparr>)"
| "run_timer_task (RestartAfterEnd isListening_c) throws st =
     (if isListening_c then call_recognizer Start st else st)"

text \<open>A pending timer expires: it leaves the list and its callback runs.\<close>

definition fire_timer :: "nat \<Rightarrow> bool \<Rightarrow> app_state \<Rightarrow> app_state" where
  "fire_timer tid throws st =
     (case find (\<lambda>t. fst t = tid) (timers st) of
         None \<Rightarrow> st
       | Some (_, _, task) \<Rightarrow>
           run_timer_task task throws
             (st\<lparr>timers := filter (\<lambda>t. fst t \<noteq> tid) (timers st)\<rparr>))"

text \<open>
  \<^verbatim>\<open>toggleListening\<close> up to the request for the microphone; \<open>stop_throws\<close> tells
  whether \<^verbatim>\<open>stop()\<close> throws. The two ways the promise of \<^verbatim>\<open>getUserMedia\<close> settles
  follow.
\<close>

definition toggleListening :: "bool \<Rightarrow> app_state \<Rightarrow> app_state" where
  "toggleListening stop_throws st =
     (if \<not> speechSupported st \<or> recognitionRef st = None then st
      else
        let st1 = st\<lparr>permissionError := None, networkError := False\<rparr>
        in if isListening st
           then (let st2 = call_recognizer Stop st1
                 in if stop_throws then st2 else st2\<lparr>isListening := False\<rparr>)
           else st1)"

definition getUserMedia_resolved :: "app_state \<Rightarrow> app_state" where
  "getUserMedia_resolved st = snd (setTimeout StartAfterPermission 100 st)"

definition getUserMedia_rejected :: "app_state \<Rightarrow> app_state" where
  "getUserMedia_rejected st =
     st\<lparr>permissionError :=
          Some ''Microphone access was denied. Please enable it in your browser settings.'',
        isListening := False\<rparr>"

section \<open>The application as an event system\<close>

text \<open>
  Everything that can happen to the mounted application: a video frame is analysed, the
  user types, submits the form, clears the chat or clicks the microphone, a promise
  settles, the recogniser fires an event, a timer expires.
\<close>

datatype event =
    VideoFrame bool frame
  | ChangeInput string
  | SubmitForm nat nat
  | FetchSettled fetch_outcome nat
  | ClickClear
  | ClickMic bool
  | MicGranted
  | MicDenied
  | RecognitionResult string
  | RecognitionError string
  | RecognitionEnd
  | TimerFired nat bool

fun handler :: "config \<Rightarrow> event \<Rightarrow> app_state \<Rightarrow> app_state" where
  "handler cfg (VideoFrame ready fr) st = detectFaces ready fr st"
| "handler cfg (ChangeInput v) st = st\<lparr>input := v\<rparr>"
| "handler cfg (SubmitForm t_user t_system) st = sendMessage cfg t_user t_system st"
| "handler cfg (FetchSettled outcome now) st = sendMessage_settled outcome now st"
| "handler cfg ClickClear st = clearChat st"
| "handler cfg (ClickMic stop_throws) st = toggleListening stop_throws st"
| "handler cfg MicGranted st = getUserMedia_resolved st"
| "handler cfg MicDenied st = getUserMedia_rejected st"
| "handler cfg (RecognitionResult transcript) st =
     (case recognitionRef st of None \<Rightarrow> st | Some r \<Rightarrow> onresult transcript st)"
| "handler cfg (RecognitionError error) st =
     (case recognitionRef st of
         None \<Rightarrow> st
       | Some r \<Rightarrow> onerror (onerror_isListening r) error st)"
| "handler cfg RecognitionEnd st =
     (case recognitionRef st of
         None \<Rightarrow> st
       | Some r \<Rightarrow> onend (onend_isListening r) (onend_networkError r) st)"
| "handler cfg (TimerFired tid throws) st = fire_timer tid throws st"

text \<open>An event is handled, React renders, and the effects whose dependencies changed run.\<close>

definition handle :: "config \<Rightarrow> event \<Rightarrow> app_state \<Rightarrow> app_state" where
  "handle cfg ev st =
     (let st1 = handler cfg ev st
      in onend_effect st (emotion_effect st st1))"

text \<open>Mounting runs every effect once, in the order of the hooks.\<close>

definition mount :: "bool \<Rightarrow> app_state" where
  "mount supported = assign_onend (initSpeechRecognition supported initial_state)"

definition run :: "config \<Rightarrow> bool \<Rightarrow> event list \<Rightarrow> app_state" where
  "run cfg supported evs = foldl (\<lambda>st ev. handle cfg ev st) (mount supported) evs"


section \<open>An invariant of the dictation controller\<close>

text \<open>
  The closure assigned to \<^verbatim>\<open>onerror\<close> holds \<^verbatim>\<open>isListening = false\<close>, and so does
  every retry callback waiting in the timer list.
\<close>

definition retry_inert :: "app_state \<Rightarrow> bool" where
  "retry_inert st \<longleftrightarrow>
     (\<forall>r. recognitionRef st = Some r \<longrightarrow> \<not> onerror_isListening r)
     \<and> (\<forall>t \<in> set (timers st). \<forall>c. snd (snd t) = RetryAfterNetworkError c \<longrightarrow> \<not> c)"


section \<open>Auxiliary facts\<close>

lemmas chat_defs = run_def mount_def handle_def assign_onend_def initSpeechRecognition_def
  initial_state_def emotion_effect_def onend_effect_def handleEmotionDetected_def
  sendMessage_def sendMessage_settled_def try_block_def catch_block_def clearChat_def
  trim_def is_white_space_def response_ok_def wire_def system_prompt_def
  emotion_or_neutral_def api_url_def fallback_text_def detectFaces_def dominantExpression_def
  Let_def

lemmas dictation_defs = toggleListening_def getUserMedia_resolved_def getUserMedia_rejected_def
  setTimeout_def clearTimeout_def call_recognizer_def fire_timer_def onerror_def onend_def
  onresult_def


subsection \<open>The reduction of the aggregator\<close>

text \<open>
  The reduction keeps the later of two entries unless the earlier one scores strictly
  higher: its result splits the list into entries that score no more, before it, and
  entries that score strictly less, after it.
\<close>

lemma foldl_dominant_last_max:
  fixes f :: "string \<times> real \<Rightarrow> string \<times> real \<Rightarrow> string \<times> real"
  defines "f \<equiv> \<lambda>prev current. if snd prev > snd current then prev else current"
  shows "\<exists>before after. p # xs = before @ foldl f p xs # after
      \<and> (\<forall>e \<in> set before. snd e \<le> snd (foldl f p xs))
      \<and> (\<forall>e \<in> set after. snd e < snd (foldl f p xs))"
proof (induction xs rule: rev_induct)
  case Nil
  have "p # [] = [] @ foldl f p [] # []" by simp
  then show ?case by fastforce
next
  case (snoc x xs)
  define m where "m = foldl f p xs"
  from snoc obtain before after where dec: "p # xs = before @ m # after"
    and le: "\<forall>e \<in> set before. snd e \<le> snd m" and lt: "\<forall>e \<in> set after. snd e < snd m"
    unfolding m_def by blast
  have step: "foldl f p (xs @ [x]) = f m x" by (simp add: m_def)
  show ?case
  proof (cases "snd m > snd x")
    case True
    then have r: "foldl f p (xs @ [x]) = m" unfolding step by (simp add: f_def)
    have "p # (xs @ [x]) = before @ m # (after @ [x])" using dec by simp
    moreover have "\<forall>e \<in> set (after @ [x]). snd e < snd m" using lt True by auto
    ultimately show ?thesis unfolding r using le by blast
  next
    case False
    then have r: "foldl f p (xs @ [x]) = x" unfolding step by (simp add: f_def)
    have "\<forall>e \<in> set (p # xs). snd e \<le> snd x"
    proof
      fix e assume "e \<in> set (p # xs)"
      then have "e \<in> set before \<or> e = m \<or> e \<in> set after" unfolding dec by auto
      then have "snd e \<le> snd m" using le lt by fastforce
      then show "snd e \<le> snd x" using False by simp
    qed
    moreover have "p # (xs @ [x]) = (p # xs) @ x # []" by simp
    moreover have "\<forall>e \<in> set ([] :: (string \<times> real) list). snd e < snd x" by simp
    ultimately show ?thesis unfolding r by blast
  qed
qed


subsection \<open>Trimming\<close>

lemma trim_empty_iff: "trim s = [] \<longleftrightarrow> (\<forall>c \<in> set s. is_white_space c)"
proof
  assume "trim s = []"
  then have "\<forall>c \<in> set (rev (dropWhile is_white_space s)). is_white_space c"
    by (simp add: trim_def dropWhile_eq_Nil_conv)
  then have "dropWhile is_white_space s = []"
    using hd_dropWhile [of is_white_space s] by (cases "dropWhile is_white_space s") auto
  then show "\<forall>c \<in> set s. is_white_space c"
    unfolding dropWhile_eq_Nil_conv .
next
  assume "\<forall>c \<in> set s. is_white_space c"
  then have d: "dropWhile is_white_space s = []" by (simp add: dropWhile_eq_Nil_conv)
  show "trim s = []" unfolding trim_def d by simp
qed


subsection \<open>What each handler leaves alone\<close>

lemma setTimeout_fields:
  "currentEmotion (snd (setTimeout task d st)) = currentEmotion st"
  "detectedEmotion (snd (setTimeout task d st)) = detectedEmotion st"
  "messages (snd (setTimeout task d st)) = messages st"
  "recognitionRef (snd (setTimeout task d st)) = recognitionRef st"
  by (simp_all add: setTimeout_def)

lemma detectFaces_fields:
  "currentEmotion (detectFaces ready fr st) = currentEmotion st"
  "messages (detectFaces ready fr st) = messages st"
  "recognitionRef (detectFaces ready fr st) = recognitionRef st"
  by (simp_all add: detectFaces_def split: frame.split list.split sum.split)

lemma sendMessage_fields:
  "currentEmotion (sendMessage cfg t1 t2 st) = currentEmotion st"
  "detectedEmotion (sendMessage cfg t1 t2 st) = detectedEmotion st"
  "recognitionRef (sendMessage cfg t1 t2 st) = recognitionRef st"
  by (simp_all add: sendMessage_def Let_def)

lemma try_block_fields:
  assumes "try_block outcome now st = Inr st'"
  shows "currentEmotion st' = currentEmotion st"
    and "detectedEmotion st' = detectedEmotion st"
    and "recognitionRef st' = recognitionRef st"
    and "\<exists>v. messages st' = messages st @ [\<lparr>role = Assistant, content = v, id_msg = ''assistant-'' @ decimal now\<rparr>]"
  using assms
  by (auto simp add: try_block_def split: fetch_outcome.splits sum.splits if_splits)

lemma sendMessage_settled_fields:
  "currentEmotion (sendMessage_settled outcome now st) = currentEmotion st"
  "detectedEmotion (sendMessage_settled outcome now st) = detectedEmotion st"
  "recognitionRef (sendMessage_settled outcome now st) = recognitionRef st"
  by (auto simp add: sendMessage_settled_def catch_block_def Let_def
      dest: try_block_fields split: sum.split)

lemma onerror_fields:
  "currentEmotion (onerror c err st) = currentEmotion st"
  "detectedEmotion (onerror c err st) = detectedEmotion st"
  "messages (onerror c err st) = messages st"
  "recognitionRef (onerror c err st) = recognitionRef st"
  by (simp_all add: onerror_def Let_def setTimeout_def clearTimeout_def split: option.split)

lemma onend_fields:
  "currentEmotion (onend c n st) = currentEmotion st"
  "detectedEmotion (onend c n st) = detectedEmotion st"
  "messages (onend c n st) = messages st"
  "recognitionRef (onend c n st) = recognitionRef st"
  by (simp_all add: onend_def setTimeout_def)

lemma run_timer_task_fields:
  "currentEmotion (run_timer_task task throws st) = currentEmotion st"
  "detectedEmotion (run_timer_task task throws st) = detectedEmotion st"
  "messages (run_timer_task task throws st) = messages st"
  "recognitionRef (run_timer_task task throws st) = recognitionRef st"
  by (cases task; simp add: call_recognizer_def setTimeout_def Let_def)+

lemma fire_timer_fields:
  "currentEmotion (fire_timer tid throws st) = currentEmotion st"
  "detectedEmotion (fire_timer tid throws st) = detectedEmotion st"
  "messages (fire_timer tid throws st) = messages st"
  "recognitionRef (fire_timer tid throws st) = recognitionRef st"
  by (simp_all add: fire_timer_def run_timer_task_fields split: option.split prod.split)

lemma toggleListening_fields:
  "currentEmotion (toggleListening b st) = currentEmotion st"
  "detectedEmotion (toggleListening b st) = detectedEmotion st"
  "messages (toggleListening b st) = messages st"
  "recognitionRef (toggleListening b st) = recognitionRef st"
  by (simp_all add: toggleListening_def call_recognizer_def Let_def)

lemma handler_currentEmotion: "currentEmotion (handler cfg ev st) = currentEmotion st"
  by (cases ev)
    (simp_all add: detectFaces_fields sendMessage_fields sendMessage_settled_fields
      clearChat_def toggleListening_fields getUserMedia_resolved_def setTimeout_fields
      getUserMedia_rejected_def onresult_def onerror_fields onend_fields fire_timer_fields
      split: option.split)

lemma effects_fields:
  "messages (onend_effect prev st) = messages st"
  "currentEmotion (onend_effect prev st) = currentEmotion st"
  "messages (emotion_effect prev st) = messages st"
  "recognitionRef (emotion_effect prev st) = recognitionRef st"
  by (simp_all add: onend_effect_def assign_onend_def emotion_effect_def
      handleEmotionDetected_def split: option.split)

lemma untimed_fields:
  "timers (detectFaces ready fr st) = timers st"
  "timers (sendMessage cfg t1 t2 st) = timers st"
  "timers (sendMessage_settled outcome now st) = timers st"
  "timers (toggleListening b st) = timers st"
  "timers (emotion_effect prev st) = timers st"
  "timers (assign_onend st) = timers st"
proof -
  show "timers (detectFaces ready fr st) = timers st"
    by (simp add: detectFaces_def split: frame.split list.split sum.split)
  show "timers (sendMessage cfg t1 t2 st) = timers st"
    by (simp add: sendMessage_def Let_def)
  show "timers (sendMessage_settled outcome now st) = timers st"
    by (cases "try_block outcome now st")
      (auto simp add: sendMessage_settled_def catch_block_def try_block_def
        split: fetch_outcome.splits sum.splits if_splits)
  show "timers (toggleListening b st) = timers st"
    by (simp add: toggleListening_def call_recognizer_def Let_def)
  show "timers (emotion_effect prev st) = timers st"
    by (simp add: emotion_effect_def handleEmotionDetected_def split: option.split)
  show "timers (assign_onend st) = timers st"
    by (simp add: assign_onend_def split: option.split)
qed

lemma effects_keep:
  "isListening (onend_effect prev (emotion_effect prev st)) = isListening st"
  "networkError (onend_effect prev (emotion_effect prev st)) = networkError st"
  "recognizer_calls (onend_effect prev (emotion_effect prev st)) = recognizer_calls st"
  "timers (onend_effect prev (emotion_effect prev st)) = timers st"
  by (simp_all add: onend_effect_def assign_onend_def emotion_effect_def
      handleEmotionDetected_def split: option.split)

lemma onerror_network_fields:
  "isListening (onerror c ''network'' st) = isListening st"
  "networkError (onerror c ''network'' st)"
  "recognizer_calls (onerror c ''network'' st) = recognizer_calls st"
  "retryTimeoutRef (onerror c ''network'' st) = Some (next_timer_id st)"
  "(next_timer_id st, 2000, RetryAfterNetworkError c) \<in> set (timers (onerror c ''network'' st))"
  by (simp_all add: onerror_def Let_def setTimeout_def clearTimeout_def split: option.split)

lemma onerror_timers:
  "set (timers (onerror c error st))
     \<subseteq> set (timers st) \<union> {(next_timer_id st, 2000, RetryAfterNetworkError c)}"
proof (cases "error = ''network''")
  case True
  then show ?thesis
    by (auto simp add: onerror_def Let_def setTimeout_def clearTimeout_def split: option.split)
next
  case False
  then show ?thesis by (auto simp add: onerror_def Let_def)
qed

lemma run_snoc: "run cfg supported (evs @ [ev]) = handle cfg ev (run cfg supported evs)"
  by (simp add: run_def)

lemma mount_fields:
  "currentEmotion (mount supported) = None"
  "messages (mount supported) = []"
  by (simp_all add: mount_def assign_onend_def initSpeechRecognition_def initial_state_def)

lemma handle_messages: "messages (handle cfg ev st) = messages (handler cfg ev st)"
  by (simp add: handle_def Let_def effects_fields)


subsection \<open>The promoted emotion is never the empty string\<close>

lemma emotion_effect_nonempty:
  "currentEmotion st \<noteq> Some [] \<Longrightarrow> currentEmotion (emotion_effect prev st) \<noteq> Some []"
  by (simp add: emotion_effect_def handleEmotionDetected_def split: option.split)

lemma handle_currentEmotion_nonempty:
  "currentEmotion st \<noteq> Some [] \<Longrightarrow> currentEmotion (handle cfg ev st) \<noteq> Some []"
  by (simp add: handle_def Let_def effects_fields emotion_effect_nonempty handler_currentEmotion)

lemma run_currentEmotion_nonempty: "currentEmotion (run cfg supported evs) \<noteq> Some []"
proof (induction evs rule: rev_induct)
  case Nil
  show ?case by (simp add: run_def mount_fields)
next
  case (snoc ev evs)
  then show ?case by (simp add: run_snoc handle_currentEmotion_nonempty)
qed


subsection \<open>Roles of stored messages\<close>

lemma handler_messages_no_system:
  assumes "\<forall>m \<in> set (messages st). role m \<noteq> System"
  shows "\<forall>m \<in> set (messages (handler cfg ev st)). role m \<noteq> System"
proof (cases ev)
  case (SubmitForm t1 t2)
  with assms show ?thesis by (auto simp add: sendMessage_def Let_def)
next
  case (FetchSettled outcome now)
  show ?thesis
  proof (cases "try_block outcome now st")
    case (Inl e)
    with assms FetchSettled show ?thesis
      by (auto simp add: sendMessage_settled_def catch_block_def)
  next
    case (Inr st')
    from try_block_fields(4) [OF Inr] obtain v where
      "messages st' = messages st @ [\<lparr>role = Assistant, content = v, id_msg = ''assistant-'' @ decimal now\<rparr>]"
      by blast
    with assms FetchSettled Inr show ?thesis
      by (auto simp add: sendMessage_settled_def)
  qed
qed (use assms in \<open>simp_all add: detectFaces_fields clearChat_def toggleListening_fields
      getUserMedia_resolved_def setTimeout_fields getUserMedia_rejected_def onresult_def
      onerror_fields onend_fields fire_timer_fields split: option.split\<close>)


subsection \<open>Responses without a usable reply\<close>

lemma try_block_lacking:
  assumes "\<not> (\<exists>kvs kvs' v. data = JObj kvs \<and> map_of kvs ''result'' = Some (JObj kvs')
              \<and> map_of kvs' ''response'' = Some v)"
  shows "\<exists>e. try_block (Responded status (Inr data)) now st = Inl e"
proof (cases "response_ok status")
  case False
  then show ?thesis by (simp add: try_block_def)
next
  case ok: True
  show ?thesis
  proof (cases data)
    case (JObj kvs)
    show ?thesis
    proof (cases "map_of kvs ''result''")
      case None
      with ok JObj show ?thesis by (simp add: try_block_def)
    next
      case (Some result)
      show ?thesis
      proof (cases result)
        case (JObj kvs')
        with assms \<open>data = JObj kvs\<close> Some have "map_of kvs' ''response'' = None"
          by (cases "map_of kvs' ''response''") auto
        with ok \<open>data = JObj kvs\<close> Some JObj show ?thesis by (simp add: try_block_def)
      qed (use ok \<open>data = JObj kvs\<close> Some in \<open>simp_all add: try_block_def\<close>)
    qed
  qed (use ok in \<open>simp_all add: try_block_def\<close>)
qed

lemma settled_failure:
  "try_block outcome now st = Inl e \<Longrightarrow>
   messages (sendMessage_settled outcome now st)
     = messages st @ [\<lparr>role = Assistant, content = JStr fallback_text,
                        id_msg = ''error-'' @ decimal now\<rparr>]"
  by (simp add: sendMessage_settled_def catch_block_def)


subsection \<open>The retry callback is inert\<close>

lemma retry_inert_frame:
  assumes "retry_inert st" and "recognitionRef st' = recognitionRef st"
    and "set (timers st') \<subseteq> set (timers st) \<union> {(i, d, task)}"
    and "\<forall>c. task = RetryAfterNetworkError c \<longrightarrow> \<not> c"
  shows "retry_inert st'"
  using assms unfolding retry_inert_def by fastforce

lemma retry_inert_same_timers:
  assumes "recognitionRef st' = recognitionRef st"
    and "set (timers st') \<subseteq> set (timers st)"
    and "retry_inert st"
  shows "retry_inert st'"
  using assms unfolding retry_inert_def by fastforce

lemma retry_inert_setTimeout:
  assumes "retry_inert st" and "\<forall>c. task = RetryAfterNetworkError c \<longrightarrow> \<not> c"
  shows "retry_inert (snd (setTimeout task d st))"
  using assms unfolding retry_inert_def setTimeout_def by auto

lemma retry_inert_call_recognizer:
  assumes "retry_inert st"
  shows "retry_inert (call_recognizer c st)"
  by (rule retry_inert_same_timers [OF _ _ assms]) (simp_all add: call_recognizer_def)

lemma retry_inert_run_timer_task:
  assumes "retry_inert st"
  shows "retry_inert (run_timer_task task throws st)"
proof (cases task)
  case StartAfterPermission
  have "retry_inert ((call_recognizer Start st)\<lparr>isListening := True\<rparr>)"
    by (rule retry_inert_same_timers [OF _ _ assms]) (simp_all add: call_recognizer_def)
  with assms StartAfterPermission show ?thesis
    by (simp add: Let_def retry_inert_call_recognizer)
next
  case (RetryAfterNetworkError c)
  have "retry_inert (snd (setTimeout RestartAfterRetryStop 300 (call_recognizer Stop st)))"
    using assms by (simp add: retry_inert_setTimeout retry_inert_call_recognizer)
  moreover have "retry_inert ((call_recognizer Stop st)\<lparr>isListening := False\<rparr>)"
    by (rule retry_inert_same_timers [OF _ _ assms]) (simp_all add: call_recognizer_def)
  ultimately show ?thesis using assms RetryAfterNetworkError by (simp add: Let_def)
next
  case RestartAfterRetryStop
  have "retry_inert ((call_recognizer Start st)\<lparr>networkError := False, permissionError := None\<rparr>)"
    by (rule retry_inert_same_timers [OF _ _ assms]) (simp_all add: call_recognizer_def)
  with assms RestartAfterRetryStop show ?thesis
    by (simp add: Let_def retry_inert_call_recognizer)
next
  case (RestartAfterEnd c)
  with assms show ?thesis by (simp add: retry_inert_call_recognizer)
qed

lemma retry_inert_onerror:
  assumes "retry_inert st" and "recognitionRef st = Some r"
  shows "retry_inert (onerror (onerror_isListening r) error st)"
proof -
  from assms have "\<forall>c. RetryAfterNetworkError (onerror_isListening r) = RetryAfterNetworkError c \<longrightarrow> \<not> c"
    by (simp add: retry_inert_def)
  with assms(1) onerror_fields(4) onerror_timers show ?thesis
    by (rule retry_inert_frame)
qed

lemma retry_inert_handler:
  assumes "retry_inert st"
  shows "retry_inert (handler cfg ev st)"
proof (cases ev)
  case (VideoFrame ready fr)
  show ?thesis unfolding VideoFrame handler.simps
    by (rule retry_inert_same_timers [OF _ _ assms]) (simp_all add: detectFaces_fields untimed_fields)
next
  case (ChangeInput v)
  show ?thesis unfolding ChangeInput handler.simps
    by (rule retry_inert_same_timers [OF _ _ assms]) simp_all
next
  case (SubmitForm t1 t2)
  show ?thesis unfolding SubmitForm handler.simps
    by (rule retry_inert_same_timers [OF _ _ assms]) (simp_all add: sendMessage_fields untimed_fields)
next
  case (FetchSettled outcome now)
  show ?thesis unfolding FetchSettled handler.simps
    by (rule retry_inert_same_timers [OF _ _ assms])
      (simp_all add: sendMessage_settled_fields untimed_fields)
next
  case ClickClear
  show ?thesis unfolding ClickClear handler.simps
    by (rule retry_inert_same_timers [OF _ _ assms]) (simp_all add: clearChat_def)
next
  case (ClickMic b)
  show ?thesis unfolding ClickMic handler.simps
    by (rule retry_inert_same_timers [OF _ _ assms])
      (simp_all add: toggleListening_fields untimed_fields)
next
  case MicGranted
  with assms show ?thesis by (simp add: getUserMedia_resolved_def retry_inert_setTimeout)
next
  case MicDenied
  show ?thesis unfolding MicDenied handler.simps
    by (rule retry_inert_same_timers [OF _ _ assms]) (simp_all add: getUserMedia_rejected_def)
next
  case (RecognitionResult transcript)
  have "retry_inert (onresult transcript st)"
    by (rule retry_inert_same_timers [OF _ _ assms]) (simp_all add: onresult_def)
  with assms RecognitionResult show ?thesis by (simp split: option.split)
next
  case (RecognitionError error)
  with assms show ?thesis by (simp add: retry_inert_onerror split: option.split)
next
  case RecognitionEnd
  have "retry_inert (st\<lparr>isListening := False\<rparr>)"
    by (rule retry_inert_same_timers [OF _ _ assms]) simp_all
  with assms RecognitionEnd show ?thesis
    by (simp add: onend_def retry_inert_setTimeout split: option.split)
next
  case (TimerFired tid throws)
  have "retry_inert (st\<lparr>timers := filter (\<lambda>t. fst t \<noteq> tid) (timers st)\<rparr>)"
    by (rule retry_inert_same_timers [OF _ _ assms]) auto
  with assms TimerFired show ?thesis
    by (simp add: fire_timer_def retry_inert_run_timer_task split: option.split prod.split)
qed

lemma retry_inert_emotion_effect:
  assumes "retry_inert st"
  shows "retry_inert (emotion_effect prev st)"
  by (rule retry_inert_same_timers [OF _ _ assms]) (simp_all add: effects_fields untimed_fields)

lemma retry_inert_assign_onend:
  assumes "retry_inert st"
  shows "retry_inert (assign_onend st)"
proof (cases "recognitionRef st")
  case None
  then show ?thesis using assms by (simp add: assign_onend_def)
next
  case (Some r)
  with assms show ?thesis
    unfolding retry_inert_def by (auto simp add: assign_onend_def)
qed

lemma retry_inert_handle:
  assumes "retry_inert st"
  shows "retry_inert (handle cfg ev st)"
proof -
  have "retry_inert (handler cfg ev st)" using assms by (rule retry_inert_handler)
  then have "retry_inert (emotion_effect st (handler cfg ev st))"
    by (rule retry_inert_emotion_effect)
  then show ?thesis
    by (simp add: handle_def Let_def onend_effect_def retry_inert_assign_onend)
qed

lemma retry_inert_run: "retry_inert (run cfg supported evs)"
proof (induction evs rule: rev_induct)
  case Nil
  show ?case
    by (simp add: run_def mount_def retry_inert_def assign_onend_def
        initSpeechRecognition_def initial_state_def)
next
  case (snoc ev evs)
  then show ?case by (simp add: run_snoc retry_inert_handle)
qed

text \<open>
  In every reachable state, a network error while listening keeps the controller
  listening and marks it reconnecting, and schedules a retry callback that closed over
  \<^verbatim>\<open>isListening = false\<close>; when a retry callback of a reachable state runs, it makes no
  call on the recogniser.
\<close>

lemma network_error_while_listening:
  assumes "st = run cfg supported evs" and "isListening st" and "recognitionRef st = Some r"
  shows "isListening (handle cfg (RecognitionError ''network'') st)
    \<and> networkError (handle cfg (RecognitionError ''network'') st)
    \<and> (next_timer_id st, 2000, RetryAfterNetworkError False)
           \<in> set (timers (handle cfg (RecognitionError ''network'') st))
    \<and> recognizer_calls (handle cfg (RecognitionError ''network'') st) = recognizer_calls st"
proof -
  from retry_inert_run [of cfg supported evs] assms have c: "onerror_isListening r = False"
    by (simp add: retry_inert_def)
  have "handle cfg (RecognitionError ''network'') st
          = onend_effect st (emotion_effect st (onerror False ''network'' st))"
    using assms(3) c by (simp add: handle_def)
  then show ?thesis
    using assms(2) by (simp add: effects_keep onerror_network_fields)
qed

lemma reachable_retry_makes_no_call:
  assumes "st = run cfg supported evs"
    and "find (\<lambda>t. fst t = tid) (timers st) = Some (tid, d, RetryAfterNetworkError c)"
  shows "recognizer_calls (handle cfg (TimerFired tid throws) st) = recognizer_calls st
    \<and> isListening (handle cfg (TimerFired tid throws) st) = isListening st
    \<and> timers (handle cfg (TimerFired tid throws) st) = filter (\<lambda>t. fst t \<noteq> tid) (timers st)"
proof -
  from assms(2) have "(tid, d, RetryAfterNetworkError c) \<in> set (timers st)"
    by (auto simp add: find_Some_iff in_set_conv_nth)
  with retry_inert_run [of cfg supported evs] assms(1) have c: "\<not> c"
    by (fastforce simp add: retry_inert_def)
  have "fire_timer tid throws st = st\<lparr>timers := filter (\<lambda>t. fst t \<noteq> tid) (timers st)\<rparr>"
    using assms(2) c by (simp add: fire_timer_def)
  then have "handle cfg (TimerFired tid throws) st
          = onend_effect st (emotion_effect st (st\<lparr>timers := filter (\<lambda>t. fst t \<noteq> tid) (timers st)\<rparr>))"
    by (simp add: handle_def)
  then show ?thesis by (simp add: effects_keep)
qed


section \<open>The claims\<close>

text \<open>
  Claim C1. For every non-empty set of per-label scores of a frame, the aggregator selects
  an entry of the set whose score is the maximum; when that maximum is at most 0.5,
  handling the frame leaves the whole state, the current emotion included, as it was; and
  when it exceeds 0.5, \<^verbatim>\<open>detectFaces\<close> stores the selected label as the detected emotion,
  which the effect hands on as the current emotion when the label is non-empty and new.
\<close>

theorem aggregator_selects_maximum_and_is_sticky:
  assumes "entries \<noteq> []"
  shows "\<exists>label score. dominantExpression entries = Inr (label, score)
           \<and> (label, score) \<in> set entries
           \<and> (\<forall>e \<in> set entries. snd e \<le> score)
           \<and> (score \<le> 0.5 \<longrightarrow>
                 handle cfg (VideoFrame ready (Detections (entries # others))) st = st)
           \<and> (score > 0.5 \<longrightarrow>
                 detectedEmotion (detectFaces True (Detections (entries # others)) st)
                   = Some label
                 \<and> detectedEmotion
                      (handle cfg (VideoFrame True (Detections (entries # others))) st)
                   = Some label
                 \<and> (label \<noteq> [] \<and> detectedEmotion st \<noteq> Some label \<longrightarrow>
                      currentEmotion
                        (handle cfg (VideoFrame True (Detections (entries # others))) st)
                      = Some label))"
proof -
  from assms obtain p xs where e: "entries = p # xs" by (cases entries) auto
  define m where "m = foldl (\<lambda>prev current. if snd prev > snd current then prev else current) p xs"
  have d: "dominantExpression entries = Inr (fst m, snd m)"
    by (simp add: dominantExpression_def e m_def)
  from foldl_dominant_last_max [of p xs] obtain before after
    where dec: "p # xs = before @ m # after"
      and le: "\<forall>e \<in> set before. snd e \<le> snd m" and lt: "\<forall>e \<in> set after. snd e < snd m"
    unfolding m_def by blast
  have mem: "(fst m, snd m) \<in> set entries" unfolding e dec by simp
  have mx: "\<forall>e \<in> set entries. snd e \<le> snd m"
  proof
    fix x assume "x \<in> set entries"
    then have "x \<in> set before \<or> x = m \<or> x \<in> set after" unfolding e dec by auto
    then show "snd x \<le> snd m" using le lt by fastforce
  qed
  have sticky: "snd m \<le> 0.5 \<longrightarrow> handle cfg (VideoFrame ready (Detections (entries # others))) st = st"
    using d by (simp add: handle_def detectFaces_def emotion_effect_def onend_effect_def)
  have promoted: "snd m > 0.5 \<longrightarrow>
      detectFaces True (Detections (entries # others)) st
        = st\<lparr>detectedEmotion := Some (fst m)\<rparr>"
    using d by (simp add: detectFaces_def)
  have p1: "snd m > 0.5 \<longrightarrow>
      detectedEmotion (detectFaces True (Detections (entries # others)) st) = Some (fst m)"
    using promoted by simp
  have p2: "snd m > 0.5 \<longrightarrow>
      detectedEmotion (handle cfg (VideoFrame True (Detections (entries # others))) st)
        = Some (fst m)"
    using promoted
    by (simp add: handle_def Let_def emotion_effect_def onend_effect_def assign_onend_def
        handleEmotionDetected_def split: option.split)
  have p3: "snd m > 0.5 \<longrightarrow> (fst m \<noteq> [] \<and> detectedEmotion st \<noteq> Some (fst m) \<longrightarrow>
      currentEmotion (handle cfg (VideoFrame True (Detections (entries # others))) st)
        = Some (fst m))"
    using promoted
    by (simp add: handle_def Let_def emotion_effect_def onend_effect_def assign_onend_def
        handleEmotionDetected_def split: option.split)
  from d mem mx sticky p1 p2 p3 show ?thesis by blast
qed

theorem aggregator_selects_maximum_and_is_sticky_witness:
  "[(''neutral'', 0.3), (''happy'', 0.45), (''sad'', 0.25)] \<noteq> ([] :: expressions)
   \<and> dominantExpression [(''neutral'', 0.3), (''happy'', 0.45), (''sad'', 0.25)]
        = Inr (''happy'', 0.45)
   \<and> handle \<lparr>VITE_CF_ACCOUNT_ID = ''acct'', VITE_CF_API_KEY = ''key''\<rparr>
        (VideoFrame True (Detections [[(''neutral'', 0.3), (''happy'', 0.45), (''sad'', 0.25)]]))
        (initial_state\<lparr>currentEmotion := Some ''sad'', detectedEmotion := Some ''sad''\<rparr>)
      = initial_state\<lparr>currentEmotion := Some ''sad'', detectedEmotion := Some ''sad''\<rparr>
   \<and> [(''neutral'', 0.1), (''happy'', 0.7), (''sad'', 0.2)] \<noteq> ([] :: expressions)
   \<and> dominantExpression [(''neutral'', 0.1), (''happy'', 0.7), (''sad'', 0.2)]
        = Inr (''happy'', 0.7)
   \<and> detectedEmotion (detectFaces True
        (Detections [[(''neutral'', 0.1), (''happy'', 0.7), (''sad'', 0.2)]])
        (initial_state\<lparr>currentEmotion := Some ''sad'', detectedEmotion := Some ''sad''\<rparr>))
      = Some ''happy''
   \<and> detectedEmotion (handle \<lparr>VITE_CF_ACCOUNT_ID = ''acct'', VITE_CF_API_KEY = ''key''\<rparr>
        (VideoFrame True (Detections [[(''neutral'', 0.1), (''happy'', 0.7), (''sad'', 0.2)]]))
        (initial_state\<lparr>currentEmotion := Some ''sad'', detectedEmotion := Some ''sad''\<rparr>))
      = Some ''happy''
   \<and> currentEmotion (handle \<lparr>VITE_CF_ACCOUNT_ID = ''acct'', VITE_CF_API_KEY = ''key''\<rparr>
        (VideoFrame True (Detections [[(''neutral'', 0.1), (''happy'', 0.7), (''sad'', 0.2)]]))
        (initial_state\<lparr>currentEmotion := Some ''sad'', detectedEmotion := Some ''sad''\<rparr>))
      = Some ''happy''"
proof -
  let ?cfg = "\<lparr>VITE_CF_ACCOUNT_ID = ''acct'', VITE_CF_API_KEY = ''key''\<rparr>"
  let ?st = "initial_state\<lparr>currentEmotion := Some ''sad'', detectedEmotion := Some ''sad''\<rparr>"
  let ?L = "[(''neutral'', 0.3), (''happy'', 0.45), (''sad'', 0.25)] :: expressions"
  let ?H = "[(''neutral'', 0.1), (''happy'', 0.7), (''sad'', 0.2)] :: expressions"
  have ne: "?L \<noteq> []" by simp
  have dom: "dominantExpression ?L = Inr (''happy'', 0.45)"
    by (simp add: dominantExpression_def)
  from aggregator_selects_maximum_and_is_sticky [OF ne, of ?cfg True "[]" ?st]
  obtain label score where d: "dominantExpression ?L = Inr (label, score)"
    and sticky: "score \<le> 0.5 \<longrightarrow> handle ?cfg (VideoFrame True (Detections [?L])) ?st = ?st"
    by blast
  from d dom have "score = 0.45" by simp
  with sticky have low: "handle ?cfg (VideoFrame True (Detections [?L])) ?st = ?st"
    by simp
  have ne': "?H \<noteq> []" by simp
  have dom': "dominantExpression ?H = Inr (''happy'', 0.7)"
    by (simp add: dominantExpression_def)
  have old: "detectedEmotion ?st = Some ''sad''" by simp
  from aggregator_selects_maximum_and_is_sticky [OF ne', of ?cfg True "[]" ?st]
  obtain label' score' where d': "dominantExpression ?H = Inr (label', score')"
    and p1: "score' > 0.5 \<longrightarrow>
        detectedEmotion (detectFaces True (Detections [?H]) ?st) = Some label'"
    and p2: "score' > 0.5 \<longrightarrow>
        detectedEmotion (handle ?cfg (VideoFrame True (Detections [?H])) ?st) = Some label'"
    and p3: "score' > 0.5 \<longrightarrow> (label' \<noteq> [] \<and> detectedEmotion ?st \<noteq> Some label' \<longrightarrow>
        currentEmotion (handle ?cfg (VideoFrame True (Detections [?H])) ?st) = Some label')"
    by blast
  from d' dom' have l: "label' = ''happy''" and s: "score' = 0.7" by simp_all
  have gt: "score' > 0.5" unfolding s by simp
  have h1: "detectedEmotion (detectFaces True (Detections [?H]) ?st) = Some ''happy''"
    using p1 gt l by simp
  have h2: "detectedEmotion (handle ?cfg (VideoFrame True (Detections [?H])) ?st) = Some ''happy''"
    using p2 gt l by simp
  have "label' \<noteq> [] \<and> detectedEmotion ?st \<noteq> Some label'" unfolding l old by simp
  with p3 gt l
  have h3: "currentEmotion (handle ?cfg (VideoFrame True (Detections [?H])) ?st) = Some ''happy''"
    by simp
  from ne dom low ne' dom' h1 h2 h3 show ?thesis by blast
qed

text \<open>
  Claim C2. In every reachable state with an input that is not blank, submitting hands
  \<^verbatim>\<open>fetch\<close> exactly one request, whose messages are: the system message built from the
  template and the current emotion (\<^verbatim>\<open>neutral\<close> when none was promoted yet), then the
  stored messages without system entries, in order, then the new user message.
\<close>

theorem request_payload:
  assumes "st = run cfg supported evs" and "trim (input st) \<noteq> []"
  shows "\<exists>req. fetch_calls (sendMessage cfg t_user t_system st) = fetch_calls st @ [req]
           \<and> body_messages req =
               [(System, JStr (''You are an emotion powered chatbot. Your responses are influenced by the user emotions. Currently the user is ''
                    @ (case currentEmotion st of None \<Rightarrow> ''neutral'' | Some emotion \<Rightarrow> emotion) @ ''!''))]
               @ map (\<lambda>m. (role m, content m)) (filter (\<lambda>m. role m \<noteq> System) (messages st))
               @ [(User, JStr (input st))]"
proof -
  have "currentEmotion st \<noteq> Some []"
    unfolding assms(1) by (rule run_currentEmotion_nonempty)
  then have "emotion_or_neutral (currentEmotion st)
               = (case currentEmotion st of None \<Rightarrow> ''neutral'' | Some emotion \<Rightarrow> emotion)"
    by (simp add: emotion_or_neutral_def split: option.split)
  with assms(2) show ?thesis
    by (simp add: sendMessage_def Let_def wire_def system_prompt_def cong: map_cong)
qed

theorem request_payload_witness:
  "trim (input (run \<lparr>VITE_CF_ACCOUNT_ID = ''acct'', VITE_CF_API_KEY = ''key''\<rparr> True
       [VideoFrame True (Detections [[(''happy'', 0.9), (''sad'', 0.1)]]),
        ChangeInput ''hi'', SubmitForm 1 2,
        FetchSettled (Responded 200 (Inr (JObj [(''result'', JObj [(''response'', JStr ''Hello'')])]))) 3,
        ChangeInput '' how are you? ''])) \<noteq> []
   \<and> (\<exists>req.
        fetch_calls (sendMessage \<lparr>VITE_CF_ACCOUNT_ID = ''acct'', VITE_CF_API_KEY = ''key''\<rparr> 4 5
          (run \<lparr>VITE_CF_ACCOUNT_ID = ''acct'', VITE_CF_API_KEY = ''key''\<rparr> True
            [VideoFrame True (Detections [[(''happy'', 0.9), (''sad'', 0.1)]]),
             ChangeInput ''hi'', SubmitForm 1 2,
             FetchSettled (Responded 200 (Inr (JObj [(''result'', JObj [(''response'', JStr ''Hello'')])]))) 3,
             ChangeInput '' how are you? '']))
        = fetch_calls (run \<lparr>VITE_CF_ACCOUNT_ID = ''acct'', VITE_CF_API_KEY = ''key''\<rparr> True
            [VideoFrame True (Detections [[(''happy'', 0.9), (''sad'', 0.1)]]),
             ChangeInput ''hi'', SubmitForm 1 2,
             FetchSettled (Responded 200 (Inr (JObj [(''result'', JObj [(''response'', JStr ''Hello'')])]))) 3,
             ChangeInput '' how are you? '']) @ [req]
        \<and> body_messages req =
            [(System, JStr ''You are an emotion powered chatbot. Your responses are influenced by the user emotions. Currently the user is happy!''),
             (User, JStr ''hi''), (Assistant, JStr ''Hello''),
             (User, JStr '' how are you? '')])"
proof -
  let ?cfg = "\<lparr>VITE_CF_ACCOUNT_ID = ''acct'', VITE_CF_API_KEY = ''key''\<rparr>"
  let ?st = "run ?cfg True
       [VideoFrame True (Detections [[(''happy'', 0.9), (''sad'', 0.1)]]),
        ChangeInput ''hi'', SubmitForm 1 2,
        FetchSettled (Responded 200 (Inr (JObj [(''result'', JObj [(''response'', JStr ''Hello'')])]))) 3,
        ChangeInput '' how are you? '']"
  have i: "input ?st = '' how are you? ''" by (simp add: chat_defs)
  have e: "currentEmotion ?st = Some ''happy''" by (simp add: chat_defs)
  have m: "map (\<lambda>m. (role m, content m)) (filter (\<lambda>m. role m \<noteq> System) (messages ?st))
             = [(User, JStr ''hi''), (Assistant, JStr ''Hello'')]"
    by (simp add: chat_defs)
  have h: "trim (input ?st) \<noteq> []" unfolding i by (simp add: trim_def is_white_space_def)
  from request_payload [OF refl h, where t_user = 4 and t_system = 5] h show ?thesis
    unfolding i e m by simp
qed

text \<open>
  Claim C3, as stated, fails for a 2xx response whose \<^verbatim>\<open>result.response\<close> is the empty
  string: the fallback message is appended, not a message with that content.
\<close>

theorem empty_reply_appended_counterexample:
  "messages (sendMessage_settled
      (Responded 200 (Inr (JObj [(''result'', JObj [(''response'', JStr [])])]))) 7 initial_state)
   = [\<lparr>role = Assistant,
        content = JStr ''Sorry, I had trouble processing your request. Please try again.'',
        id_msg = ''error-7''\<rparr>]
   \<and> messages (sendMessage_settled
      (Responded 200 (Inr (JObj [(''result'', JObj [(''response'', JStr [])])]))) 7 initial_state)
   \<noteq> [\<lparr>role = Assistant, content = JStr [], id_msg = ''assistant-7''\<rparr>]"
  by (simp add: chat_defs decimal.simps digit_char_def)

text \<open>
  Claim C3, amended. When the request completes: a 2xx response whose body has a non-empty
  text at \<^verbatim>\<open>result.response\<close> appends exactly one assistant message with that text; a
  body without \<^verbatim>\<open>result.response\<close> or with the empty string there, a status outside
  2xx, a body that does not parse and a rejected call each append exactly one assistant
  message with the fixed fallback text, whatever the error was.
\<close>

theorem settled_appends_reply_or_fallback:
  "(response_ok status \<and> data = JObj kvs \<and> map_of kvs ''result'' = Some (JObj kvs')
      \<and> map_of kvs' ''response'' = Some (JStr reply) \<and> reply \<noteq> [] \<longrightarrow>
      messages (sendMessage_settled (Responded status (Inr data)) now st)
        = messages st @ [\<lparr>role = Assistant, content = JStr reply,
                           id_msg = ''assistant-'' @ decimal now\<rparr>])
   \<and> ((\<not> (\<exists>kvs kvs' v. data = JObj kvs \<and> map_of kvs ''result'' = Some (JObj kvs')
               \<and> map_of kvs' ''response'' = Some v)
        \<or> (\<exists>kvs kvs'. data = JObj kvs \<and> map_of kvs ''result'' = Some (JObj kvs')
               \<and> map_of kvs' ''response'' = Some (JStr []))) \<longrightarrow>
      messages (sendMessage_settled (Responded status (Inr data)) now st)
        = messages st @ [\<lparr>role = Assistant, content = JStr fallback_text,
                           id_msg = ''error-'' @ decimal now\<rparr>])
   \<and> (\<not> response_ok status \<longrightarrow>
      messages (sendMessage_settled (Responded status body) now st)
        = messages st @ [\<lparr>role = Assistant, content = JStr fallback_text,
                           id_msg = ''error-'' @ decimal now\<rparr>])
   \<and> messages (sendMessage_settled (Responded status (Inl error)) now st)
        = messages st @ [\<lparr>role = Assistant, content = JStr fallback_text,
                           id_msg = ''error-'' @ decimal now\<rparr>]
   \<and> messages (sendMessage_settled (Rejected error) now st)
        = messages st @ [\<lparr>role = Assistant, content = JStr fallback_text,
                           id_msg = ''error-'' @ decimal now\<rparr>]"
  (is "?replied \<and> ?lacking \<and> ?status \<and> ?unparsed \<and> ?rejected")
proof (intro conjI)
  show ?replied
    by (simp add: sendMessage_settled_def try_block_def)
  show ?lacking
  proof
    assume h: "\<not> (\<exists>kvs kvs' v. data = JObj kvs \<and> map_of kvs ''result'' = Some (JObj kvs')
               \<and> map_of kvs' ''response'' = Some v)
        \<or> (\<exists>kvs kvs'. data = JObj kvs \<and> map_of kvs ''result'' = Some (JObj kvs')
               \<and> map_of kvs' ''response'' = Some (JStr []))"
    have "\<exists>e. try_block (Responded status (Inr data)) now st = Inl e"
    proof (cases "\<exists>kvs kvs'. data = JObj kvs \<and> map_of kvs ''result'' = Some (JObj kvs')
               \<and> map_of kvs' ''response'' = Some (JStr [])")
      case True
      then show ?thesis by (auto simp add: try_block_def)
    next
      case False
      with h show ?thesis by (intro try_block_lacking) blast
    qed
    then show "messages (sendMessage_settled (Responded status (Inr data)) now st)
        = messages st @ [\<lparr>role = Assistant, content = JStr fallback_text,
                           id_msg = ''error-'' @ decimal now\<rparr>]"
      by (auto dest: settled_failure)
  qed
  show ?status
    by (simp add: sendMessage_settled_def try_block_def catch_block_def)
  show ?unparsed
    by (simp add: sendMessage_settled_def try_block_def catch_block_def)
  show ?rejected
    by (simp add: sendMessage_settled_def try_block_def catch_block_def)
qed

theorem settled_appends_reply_or_fallback_witness:
  "messages (sendMessage_settled
      (Responded 200 (Inr (JObj [(''result'', JObj [(''response'', JStr ''Hello'')])]))) 7 initial_state)
     = [\<lparr>role = Assistant, content = JStr ''Hello'', id_msg = ''assistant-7''\<rparr>]
   \<and> messages (sendMessage_settled
      (Responded 200 (Inr (JObj [(''errors'', JArr [])]))) 7 initial_state)
     = [\<lparr>role = Assistant, content = JStr fallback_text, id_msg = ''error-7''\<rparr>]
   \<and> messages (sendMessage_settled
      (Responded 500 (Inr (JObj [(''result'', JObj [(''response'', JStr ''Hello'')])]))) 7 initial_state)
     = [\<lparr>role = Assistant, content = JStr fallback_text, id_msg = ''error-7''\<rparr>]"
proof -
  have d: "decimal 7 = ''7''" by (simp add: decimal.simps digit_char_def)
  have m: "messages initial_state = []" by (simp add: initial_state_def)
  have "response_ok 200 \<and> JObj [(''result'', JObj [(''response'', JStr ''Hello'')])]
           = JObj [(''result'', JObj [(''response'', JStr ''Hello'')])]
        \<and> map_of [(''result'', JObj [(''response'', JStr ''Hello'')])] ''result''
           = Some (JObj [(''response'', JStr ''Hello'')])
        \<and> map_of [(''response'', JStr ''Hello'')] ''response'' = Some (JStr ''Hello'')
        \<and> ''Hello'' \<noteq> []"
    by (simp add: response_ok_def)
  with settled_appends_reply_or_fallback
    [where status = 200 and data = "JObj [(''result'', JObj [(''response'', JStr ''Hello'')])]"
       and kvs = "[(''result'', JObj [(''response'', JStr ''Hello'')])]"
       and kvs' = "[(''response'', JStr ''Hello'')]" and reply = "''Hello''" and now = 7
       and st = initial_state]
  have a: "messages (sendMessage_settled
      (Responded 200 (Inr (JObj [(''result'', JObj [(''response'', JStr ''Hello'')])]))) 7 initial_state)
     = [\<lparr>role = Assistant, content = JStr ''Hello'', id_msg = ''assistant-7''\<rparr>]"
    unfolding d m by simp
  have "\<not> (\<exists>kvs kvs' v. JObj [(''errors'', JArr [])] = JObj kvs
            \<and> map_of kvs ''result'' = Some (JObj kvs') \<and> map_of kvs' ''response'' = Some v)"
    by auto
  with settled_appends_reply_or_fallback
    [where status = 200 and data = "JObj [(''errors'', JArr [])]" and now = 7
       and st = initial_state]
  have b: "messages (sendMessage_settled
      (Responded 200 (Inr (JObj [(''errors'', JArr [])]))) 7 initial_state)
     = [\<lparr>role = Assistant, content = JStr fallback_text, id_msg = ''error-7''\<rparr>]"
    unfolding d m by simp
  have "\<not> response_ok 500" by (simp add: response_ok_def)
  with settled_appends_reply_or_fallback
    [where status = 500
       and body = "Inr (JObj [(''result'', JObj [(''response'', JStr ''Hello'')])])" and now = 7
       and st = initial_state]
  have c: "messages (sendMessage_settled
      (Responded 500 (Inr (JObj [(''result'', JObj [(''response'', JStr ''Hello'')])]))) 7 initial_state)
     = [\<lparr>role = Assistant, content = JStr fallback_text, id_msg = ''error-7''\<rparr>]"
    unfolding d m by simp
  from a b c show ?thesis by blast
qed

text \<open>
  Claim C4. The code at the input where it departs from the claim: the application is
  mounted, the microphone is switched on, the recogniser reports \<^verbatim>\<open>network\<close>, and the
  2000 ms timer expires. The controller is listening and reconnecting, but the callback
  closed over \<^verbatim>\<open>isListening = false\<close>: no \<^verbatim>\<open>stop()\<close> and no \<^verbatim>\<open>start()\<close>
  follows, and no further timer is pending.
\<close>

theorem network_error_retry_is_never_issued:
  "let st = run cfg True [ClickMic False, MicGranted, TimerFired 1 False,
                          RecognitionError ''network''];
       st' = handle cfg (TimerFired 2 throws) st
   in isListening st \<and> networkError st
      \<and> recognitionRef st = Some \<lparr>onerror_isListening = False, onend_isListening = True,
                                   onend_networkError = True\<rparr>
      \<and> timers st = [(2, 2000, RetryAfterNetworkError False)]
      \<and> recognizer_calls st = [Start]
      \<and> recognizer_calls st' = [Start] \<and> timers st' = []
      \<and> isListening st' \<and> networkError st'"
  by (simp add: chat_defs dictation_defs)

text \<open>
  Claim C5. On an input that is not blank, the dispatcher sets the busy flag and issues
  the request; and however the request settles, in whatever state, the flag is cleared.
\<close>

theorem busy_flag_released_on_every_path:
  assumes "trim (input st) \<noteq> []"
  shows "isLoading (sendMessage cfg t_user t_system st)
         \<and> (\<exists>req. fetch_calls (sendMessage cfg t_user t_system st) = fetch_calls st @ [req])
         \<and> \<not> isLoading (sendMessage_settled outcome now st')"
  using assms by (simp add: sendMessage_def sendMessage_settled_def Let_def)

theorem busy_flag_released_on_every_path_witness:
  "trim (input (initial_state\<lparr>input := ''hi''\<rparr>)) \<noteq> []
   \<and> isLoading (sendMessage \<lparr>VITE_CF_ACCOUNT_ID = ''acct'', VITE_CF_API_KEY = ''key''\<rparr> 1 2
        (initial_state\<lparr>input := ''hi''\<rparr>))
   \<and> \<not> isLoading (sendMessage_settled (Rejected (TypeError ''Failed to fetch'')) 3
        (sendMessage \<lparr>VITE_CF_ACCOUNT_ID = ''acct'', VITE_CF_API_KEY = ''key''\<rparr> 1 2
          (initial_state\<lparr>input := ''hi''\<rparr>)))"
proof -
  have h: "trim (input (initial_state\<lparr>input := ''hi''\<rparr>)) \<noteq> []"
    by (simp add: trim_def is_white_space_def)
  from busy_flag_released_on_every_path [OF h] h show ?thesis by blast
qed

text \<open>
  Claim C6. After any sequence of events, no stored message has the system role.
\<close>

theorem transcript_never_holds_system_message:
  "\<forall>m \<in> set (messages (run cfg supported evs)). role m \<noteq> System"
proof (induction evs rule: rev_induct)
  case Nil
  show ?case by (simp add: run_def mount_fields)
next
  case (snoc ev evs)
  then show ?case
    unfolding run_snoc handle_messages by (rule handler_messages_no_system)
qed

theorem transcript_never_holds_system_message_witness:
  "map role (messages (run \<lparr>VITE_CF_ACCOUNT_ID = ''acct'', VITE_CF_API_KEY = ''key''\<rparr> True
       [ChangeInput ''hi'', SubmitForm 1 2,
        FetchSettled (Responded 200 (Inr (JObj [(''result'', JObj [(''response'', JStr ''Hello'')])]))) 3]))
     = [User, Assistant]
   \<and> System \<notin> role ` set (messages
       (run \<lparr>VITE_CF_ACCOUNT_ID = ''acct'', VITE_CF_API_KEY = ''key''\<rparr> True
         [ChangeInput ''hi'', SubmitForm 1 2,
          FetchSettled (Responded 200 (Inr (JObj [(''result'', JObj [(''response'', JStr ''Hello'')])]))) 3]))"
proof -
  let ?st = "run \<lparr>VITE_CF_ACCOUNT_ID = ''acct'', VITE_CF_API_KEY = ''key''\<rparr> True
       [ChangeInput ''hi'', SubmitForm 1 2,
        FetchSettled (Responded 200 (Inr (JObj [(''result'', JObj [(''response'', JStr ''Hello'')])]))) 3]"
  have m: "map role (messages ?st) = [User, Assistant]"
    by (simp add: chat_defs)
  have "\<forall>m \<in> set (messages ?st). role m \<noteq> System"
    by (rule transcript_never_holds_system_message)
  then have "System \<notin> role ` set (messages ?st)" by auto
  with m show ?thesis by blast
qed

text \<open>
  Claim C7. Submitting an input that is empty or all white space changes nothing: the
  state after is the state before, the list of issued requests included.
\<close>

theorem blank_submission_is_noop:
  assumes "\<forall>c \<in> set (input st). is_white_space c"
  shows "sendMessage cfg t_user t_system st = st
         \<and> handle cfg (SubmitForm t_user t_system) st = st"
proof -
  from assms have "trim (input st) = []" by (simp add: trim_empty_iff)
  then have "sendMessage cfg t_user t_system st = st" by (simp add: sendMessage_def)
  then show ?thesis
    by (simp add: handle_def emotion_effect_def onend_effect_def)
qed

theorem blank_submission_is_noop_witness:
  "list_all is_white_space (input (initial_state\<lparr>input := [CHR '' '', CHR 0x09, CHR '' '']\<rparr>))
   \<and> sendMessage \<lparr>VITE_CF_ACCOUNT_ID = ''acct'', VITE_CF_API_KEY = ''key''\<rparr> 1 2
        (initial_state\<lparr>input := [CHR '' '', CHR 0x09, CHR '' '']\<rparr>)
      = initial_state\<lparr>input := [CHR '' '', CHR 0x09, CHR '' '']\<rparr>"
proof -
  have h: "\<forall>c \<in> set (input (initial_state\<lparr>input := [CHR '' '', CHR 0x09, CHR '' '']\<rparr>)).
             is_white_space c"
    by (simp add: is_white_space_def)
  from blank_submission_is_noop [OF h] h show ?thesis by (simp add: list_all_iff)
qed

text \<open>
  Claim C8. Clearing the chat empties the transcript and changes nothing else: the
  current emotion is the same, and putting the old transcript back gives the old state.
\<close>

theorem clearChat_only_empties_transcript:
  "messages (clearChat st) = []
   \<and> currentEmotion (clearChat st) = currentEmotion st
   \<and> (clearChat st)\<lparr>messages := messages st\<rparr> = st
   \<and> handle cfg ClickClear st = clearChat st"
  by (simp add: clearChat_def handle_def emotion_effect_def onend_effect_def)

text \<open>
  Claim C9, as stated, fails: of two labels tied at the maximum, the second is selected.
\<close>

theorem aggregator_tie_selects_first_counterexample:
  "dominantExpression [(''neutral'', 0.4), (''happy'', 0.4), (''sad'', 0.2)] = Inr (''happy'', 0.4)
   \<and> dominantExpression [(''neutral'', 0.4), (''happy'', 0.4), (''sad'', 0.2)] \<noteq> Inr (''neutral'', 0.4)"
  by (simp add: dominantExpression_def)

text \<open>
  Claim C9, amended. The aggregator selects the last entry, in iteration order, among
  those tied at the maximum: every entry before it scores at most as much, every entry
  after it strictly less.
\<close>

theorem aggregator_tie_selects_last:
  assumes "dominantExpression entries = Inr (label, score)"
  shows "\<exists>before after. entries = before @ (label, score) # after
           \<and> (\<forall>e \<in> set before. snd e \<le> score) \<and> (\<forall>e \<in> set after. snd e < score)"
proof (cases entries)
  case Nil
  with assms show ?thesis by (simp add: dominantExpression_def)
next
  case (Cons p xs)
  with assms have "foldl (\<lambda>prev current. if snd prev > snd current then prev else current) p xs = (label, score)"
    by (simp add: dominantExpression_def)
  with foldl_dominant_last_max [of p xs] show ?thesis unfolding Cons by simp
qed

theorem aggregator_tie_selects_last_witness:
  "dominantExpression [(''neutral'', 0.4), (''happy'', 0.4), (''sad'', 0.2)] = Inr (''happy'', 0.4)
   \<and> (\<exists>before after.
         [(''neutral'', 0.4), (''happy'', 0.4), (''sad'', 0.2 :: real)] = before @ (''happy'', 0.4) # after
         \<and> list_all (\<lambda>e. snd e \<le> 0.4) before \<and> list_all (\<lambda>e. snd e < 0.4) after)"
proof -
  have h: "dominantExpression [(''neutral'', 0.4), (''happy'', 0.4), (''sad'', 0.2)]
             = Inr (''happy'', 0.4)"
    by (simp add: dominantExpression_def)
  from h aggregator_tie_selects_last [OF h] show ?thesis
    unfolding list_all_iff by blast
qed

text \<open>
  Claim C10. A 2xx response whose \<^verbatim>\<open>result.response\<close> is the empty string takes
  the failure path, because the empty string is not truthy: the \<^verbatim>\<open>try\<close> block throws
  the format error and the fallback message is appended.
\<close>

theorem empty_response_is_failure:
  assumes "response_ok status"
    and "data = JObj kvs"
    and "map_of kvs ''result'' = Some (JObj kvs')"
    and "map_of kvs' ''response'' = Some (JStr [])"
  shows "\<not> truthy (JStr [])
         \<and> try_block (Responded status (Inr data)) now st
             = Inl (Error ''Unexpected response format from API'')
         \<and> messages (sendMessage_settled (Responded status (Inr data)) now st)
             = messages st @ [\<lparr>role = Assistant,
                  content = JStr ''Sorry, I had trouble processing your request. Please try again.'',
                  id_msg = ''error-'' @ decimal now\<rparr>]"
  using assms
  by (simp add: sendMessage_settled_def try_block_def catch_block_def fallback_text_def)

theorem empty_response_is_failure_witness:
  "response_ok 200
   \<and> messages (sendMessage_settled
        (Responded 200 (Inr (JObj [(''result'', JObj [(''response'', JStr [])])]))) 7
        (initial_state\<lparr>messages := [\<lparr>role = User, content = JStr ''hi'', id_msg = ''user-1''\<rparr>]\<rparr>))
     = [\<lparr>role = User, content = JStr ''hi'', id_msg = ''user-1''\<rparr>,
        \<lparr>role = Assistant,
         content = JStr ''Sorry, I had trouble processing your request. Please try again.'',
         id_msg = ''error-7''\<rparr>]"
proof -
  have ok: "response_ok 200" by (simp add: response_ok_def)
  have r: "map_of [(''result'', JObj [(''response'', JStr [])])] ''result''
             = Some (JObj [(''response'', JStr [])])" by simp
  have t: "map_of [(''response'', JStr [])] ''response'' = Some (JStr [])" by simp
  from empty_response_is_failure [OF ok refl r t, of 7
      "initial_state\<lparr>messages := [\<lparr>role = User, content = JStr ''hi'', id_msg = ''user-1''\<rparr>]\<rparr>"]
    ok show ?thesis
    by (simp add: decimal.simps digit_char_def)
qed

end
